theory Spec2Isabelle
  imports Complex_Main "HOL-Library.Multiset"
begin

section \<open>Data model of codeQualityChecker.py\<close>

text \<open>
  Python strings are modelled as \<open>string\<close>, one \<open>char\<close> per code point, so the text
  covered is the one whose code points are below 256.  Python integers are \<open>int\<close>; line
  numbers, which the parser and \<open>enumerate(f, 1)\<close> only produce non-negative, are \<open>nat\<close>.
  Python floats are modelled by exact real arithmetic.
\<close>

record CodeIssue =
  file_path :: string
  line_number :: nat
  issue_type :: string
  severity :: string
  message :: string
  suggestion :: "string option"

text \<open>
  The field \<open>complexity\<close> is annotated \<open>float\<close> in the source but only ever holds sums of
  integers, so it is an \<open>int\<close> here.
\<close>

record CodeMetrics =
  lines_of_code :: int
  comment_lines :: int
  blank_lines :: int
  function_count :: int
  class_count :: int
  complexity :: int
  maintainability_index :: real

text \<open>
  The configuration dictionary, with every key the analysis reads present (as in
  \<open>_get_default_config\<close>).  \<open>severity_weights\<close> is itself a dictionary and is read with
  \<open>.get(severity, 1)\<close>.
\<close>

record Config =
  max_line_length :: int
  max_function_complexity :: int
  max_class_complexity :: int
  ignore_patterns :: "string list"
  severity_weights :: "string \<rightharpoonup> int"

definition get_default_config :: Config where
  "get_default_config =
     \<lparr> max_line_length = 79,
       max_function_complexity = 10,
       max_class_complexity = 20,
       ignore_patterns = [''__pycache__'', ''.git'', ''.venv'', ''venv'', ''node_modules'',
                          ''*.pyc'', ''*.pyo''],
       severity_weights = [''error'' \<mapsto> 3, ''warning'' \<mapsto> 2, ''info'' \<mapsto> 1] \<rparr>"

subsection \<open>String operations of the Python library\<close>

definition digit_char :: "nat \<Rightarrow> char" where
  "digit_char d = ''0123456789'' ! d"

function str_nat :: "nat \<Rightarrow> string" where
  "str_nat n = (if n < 10 then [digit_char n] else str_nat (n div 10) @ [digit_char (n mod 10)])"
  by pat_completeness auto
termination
  by (relation "measure (\<lambda>n. n)") auto

declare str_nat.simps [simp del]

text \<open>\<open>str(i)\<close> for an integer, as the f-strings of the messages format it.\<close>

definition str_int :: "int \<Rightarrow> string" where
  "str_int i = (if i < 0 then CHR ''-'' # str_nat (nat (- i)) else str_nat (nat i))"

text \<open>\<open>str.isspace\<close> on one character (code points below 256).\<close>

definition isspace :: "char \<Rightarrow> bool" where
  "isspace c = ((of_char c :: nat) \<in> {9, 10, 11, 12, 13, 28, 29, 30, 31, 32, 133, 160})"

text \<open>\<open>line.rstrip('\n')\<close>: every trailing newline character is removed.\<close>

definition rstrip_newline :: "string \<Rightarrow> string" where
  "rstrip_newline s = rev (dropWhile (\<lambda>c. c = CHR 0x0A) (rev s))"

text \<open>\<open>line.rstrip()\<close> and \<open>line.strip()\<close>: whitespace is removed.\<close>

definition rstrip :: "string \<Rightarrow> string" where
  "rstrip s = rev (dropWhile isspace (rev s))"

definition strip :: "string \<Rightarrow> string" where
  "strip s = dropWhile isspace (rstrip s)"

definition startswith_hash :: "string \<Rightarrow> bool" where
  "startswith_hash s = (case s of [] \<Rightarrow> False | c # _ \<Rightarrow> c = CHR ''#'')"

text \<open>
  The character classes behind \<open>str.islower\<close> and \<open>str.isupper\<close> (code points below 256).
\<close>

definition char_islower :: "char \<Rightarrow> bool" where
  "char_islower c =
     (let n = (of_char c :: nat)
      in (97 \<le> n \<and> n \<le> 122) \<or> n = 170 \<or> n = 181 \<or> n = 186
         \<or> (223 \<le> n \<and> n \<le> 246) \<or> (248 \<le> n \<and> n \<le> 255))"

definition char_isupper :: "char \<Rightarrow> bool" where
  "char_isupper c =
     (let n = (of_char c :: nat)
      in (65 \<le> n \<and> n \<le> 90) \<or> (192 \<le> n \<and> n \<le> 214) \<or> (216 \<le> n \<and> n \<le> 222))"

text \<open>
  \<open>s.islower()\<close>: no upper-case character and at least one lower-case one;
  \<open>s.isupper()\<close> the other way round.
\<close>

definition islower :: "string \<Rightarrow> bool" where
  "islower s = (\<not> list_ex char_isupper s \<and> list_ex char_islower s)"

definition isupper :: "string \<Rightarrow> bool" where
  "isupper s = (\<not> list_ex char_islower s \<and> list_ex char_isupper s)"

definition contains_underscore :: "string \<Rightarrow> bool" where
  "contains_underscore s = list_ex (\<lambda>c. c = CHR ''_'') s"

text \<open>The character \<open>'\<close> of the messages.\<close>

definition quote :: string where
  "quote = [CHR 0x27]"

section \<open>Syntax trees\<close>

text \<open>
  The nodes of Python's \<open>ast\<close> module that the checker tells apart with \<open>isinstance\<close>, each
  with the fields the checker reads and the list of its child nodes in the order of
  \<open>ast.iter_child_nodes\<close>.  A class definition keeps its \<open>body\<close> apart from the child
  nodes before it (bases, keywords) and after it (decorators, type parameters).  The
  operator of a \<open>BoolOp\<close> and the context of a \<open>Name\<close> are nodes of their own, as in
  Python.  Every other kind of node is \<open>Other\<close>.
\<close>

datatype ast =
    Module "ast list"
  | FunctionDef string nat "ast list"
  | AsyncFunctionDef string nat "ast list"
  | ClassDef string nat "ast list" "ast list" "ast list"
  | If_stmt "ast list"
  | While "ast list"
  | For "ast list"
  | AsyncFor "ast list"
  | ExceptHandler "ast list"
  | BoolOp ast "ast list"
  | Name string nat ast
  | Load
  | Store
  | Del
  | And_op
  | Or_op
  | Other "ast list"

fun iter_child_nodes :: "ast \<Rightarrow> ast list" where
  "iter_child_nodes (Module cs) = cs"
| "iter_child_nodes (FunctionDef name lineno cs) = cs"
| "iter_child_nodes (AsyncFunctionDef name lineno cs) = cs"
| "iter_child_nodes (ClassDef name lineno pre body post) = pre @ body @ post"
| "iter_child_nodes (If_stmt cs) = cs"
| "iter_child_nodes (While cs) = cs"
| "iter_child_nodes (For cs) = cs"
| "iter_child_nodes (AsyncFor cs) = cs"
| "iter_child_nodes (ExceptHandler cs) = cs"
| "iter_child_nodes (BoolOp op vals) = op # vals"
| "iter_child_nodes (Name ident lineno ctx) = [ctx]"
| "iter_child_nodes Load = []"
| "iter_child_nodes Store = []"
| "iter_child_nodes Del = []"
| "iter_child_nodes And_op = []"
| "iter_child_nodes Or_op = []"
| "iter_child_nodes (Other cs) = cs"

lemma size_children_le:
  "sum_list (map size (iter_child_nodes n)) + length (iter_child_nodes n) \<le> size n"
  by (cases n) (simp_all add: size_list_conv_sum_list)


text \<open>
  \<open>ast.walk\<close>: a queue that starts with the node; the first node is taken off, its
  children are put at the end, and the node is yielded.
\<close>

function walk_queue :: "ast list \<Rightarrow> ast list" where
  "walk_queue [] = []"
| "walk_queue (node # todo) = node # walk_queue (todo @ iter_child_nodes node)"
  by pat_completeness auto
termination
proof (relation "measure (\<lambda>q. sum_list (map size q) + length q)")
  show "wf (measure (\<lambda>q. sum_list (map size q) + length q))"
    by simp
next
  fix node :: ast and todo :: "ast list"
  show "(todo @ iter_child_nodes node, node # todo)
          \<in> measure (\<lambda>q. sum_list (map size q) + length q)"
    using size_children_le [of node] by simp
qed

definition walk :: "ast \<Rightarrow> ast list" where
  "walk node = walk_queue [node]"

section \<open>Complexity\<close>

text \<open>The body of the loop of \<open>_calculate_complexity\<close>, for one node of the walk.\<close>

fun complexity_step :: "ast \<Rightarrow> int \<Rightarrow> int" where
  "complexity_step (If_stmt cs) c = c + 1"
| "complexity_step (While cs) c = c + 1"
| "complexity_step (For cs) c = c + 1"
| "complexity_step (AsyncFor cs) c = c + 1"
| "complexity_step (ExceptHandler cs) c = c + 1"
| "complexity_step (BoolOp op vals) c = c + (int (length vals) - 1)"
| "complexity_step child c = c"

definition calculate_complexity :: "ast \<Rightarrow> int" where
  "calculate_complexity node = fold complexity_step (walk node) 1"

text \<open>The loop of \<open>_calculate_class_complexity\<close> over \<open>node.body\<close>.\<close>

fun class_complexity_step :: "ast \<Rightarrow> int \<Rightarrow> int" where
  "class_complexity_step (FunctionDef name lineno cs) c =
     c + calculate_complexity (FunctionDef name lineno cs)"
| "class_complexity_step item c = c"

fun calculate_class_complexity :: "ast \<Rightarrow> int" where
  "calculate_class_complexity (ClassDef name lineno pre body post) =
     fold class_complexity_step body 0"
| "calculate_class_complexity node = 0"

section \<open>Files\<close>

text \<open>
  What the file system and \<open>ast.parse\<close> give for one file.  Reading yields the lines of
  the file, or fails with an exception after some lines (none, when \<open>open\<close> itself
  fails); \<open>f.read()\<close> and \<open>f.readlines()\<close> fail as a whole, \<open>for line in f\<close> sees the
  lines before the failure.  Parsing the text yields a tree, or raises \<open>SyntaxError\<close>
  (with \<open>lineno\<close>, \<open>msg\<close> and \<open>str(e)\<close>), or raises another exception (with \<open>str(e)\<close>).
\<close>

datatype read_result = ReadOk "string list" | ReadError "string list" string

datatype parse_result = Parsed ast | SyntaxError "nat option" string string | ParseException string

record SourceFile =
  path :: string
  reading :: read_result
  parsing :: parse_result

text \<open>
  \<open>with open(file_path) as f: tree = ast.parse(f.read())\<close>: the tree, or the text of the
  exception raised.
\<close>

definition parse_file :: "SourceFile \<Rightarrow> string + ast" where
  "parse_file f =
     (case reading f of
        ReadError seen e \<Rightarrow> Inl e
      | ReadOk lines \<Rightarrow>
          (case parsing f of
             Parsed tree \<Rightarrow> Inr tree
           | SyntaxError lineno msg e \<Rightarrow> Inl e
           | ParseException e \<Rightarrow> Inl e))"

section \<open>The detectors\<close>

definition analyze_syntax :: "SourceFile \<Rightarrow> CodeIssue list" where
  "analyze_syntax f =
     (case reading f of
        ReadError seen e \<Rightarrow>
          [\<lparr> file_path = path f, line_number = 0, issue_type = ''parsing_error'',
             severity = ''error'', message = ''Failed to parse file: '' @ e,
             suggestion = Some ''Check file encoding and content'' \<rparr>]
      | ReadOk lines \<Rightarrow>
          (case parsing f of
             Parsed tree \<Rightarrow> []
           | SyntaxError lineno msg e \<Rightarrow>
               [\<lparr> file_path = path f,
                  line_number = (case lineno of None \<Rightarrow> 0 | Some n \<Rightarrow> n),
                  issue_type = ''syntax_error'', severity = ''error'',
                  message = ''Syntax error: '' @ msg,
                  suggestion = Some ''Fix the syntax error to make the code valid Python'' \<rparr>]
           | ParseException e \<Rightarrow>
               [\<lparr> file_path = path f, line_number = 0, issue_type = ''parsing_error'',
                  severity = ''error'', message = ''Failed to parse file: '' @ e,
                  suggestion = Some ''Check file encoding and content'' \<rparr>]))"

text \<open>The loop of \<open>check_line_length\<close> over \<open>enumerate(f, 1)\<close>, from line number \<open>line_num\<close> on.\<close>

fun line_length_loop :: "Config \<Rightarrow> string \<Rightarrow> nat \<Rightarrow> string list \<Rightarrow> CodeIssue list" where
  "line_length_loop cfg fp line_num [] = []"
| "line_length_loop cfg fp line_num (line # rest) =
     (if int (length (rstrip_newline line)) > max_line_length cfg
      then [\<lparr> file_path = fp, line_number = line_num, issue_type = ''line_too_long'',
              severity = ''warning'',
              message = ''Line '' @ str_nat line_num @ '' is ''
                        @ str_nat (length (rstrip line)) @ '' characters long (max ''
                        @ str_int (max_line_length cfg) @ '')'',
              suggestion = Some ''Break the line into multiple lines or use line continuation'' \<rparr>]
      else [])
     @ line_length_loop cfg fp (line_num + 1) rest"

definition file_read_error :: "string \<Rightarrow> string \<Rightarrow> CodeIssue" where
  "file_read_error fp e =
     \<lparr> file_path = fp, line_number = 0, issue_type = ''file_read_error'',
       severity = ''error'', message = ''Could not read file: '' @ e, suggestion = None \<rparr>"

definition check_line_length :: "Config \<Rightarrow> SourceFile \<Rightarrow> CodeIssue list" where
  "check_line_length cfg f =
     (case reading f of
        ReadOk lines \<Rightarrow> line_length_loop cfg (path f) 1 lines
      | ReadError seen e \<Rightarrow>
          line_length_loop cfg (path f) 1 seen @ [file_read_error (path f) e])"

text \<open>
  The body of the loop of \<open>analyze_complexity\<close>, for one node of the walk: the issues it
  appends.
\<close>

fun complexity_issues :: "Config \<Rightarrow> string \<Rightarrow> ast \<Rightarrow> CodeIssue list" where
  "complexity_issues cfg fp (FunctionDef name lineno cs) =
     (let complexity = calculate_complexity (FunctionDef name lineno cs)
      in if complexity > max_function_complexity cfg
         then [\<lparr> file_path = fp, line_number = lineno, issue_type = ''high_complexity'',
                 severity = ''warning'',
                 message = ''Function '' @ quote @ name @ quote @ '' has complexity ''
                           @ str_int complexity @ '' (max ''
                           @ str_int (max_function_complexity cfg) @ '')'',
                 suggestion = Some ''Consider breaking down the function into smaller, simpler functions'' \<rparr>]
         else [])"
| "complexity_issues cfg fp (ClassDef name lineno pre body post) =
     (let complexity = calculate_class_complexity (ClassDef name lineno pre body post)
      in if complexity > max_class_complexity cfg
         then [\<lparr> file_path = fp, line_number = lineno, issue_type = ''high_class_complexity'',
                 severity = ''warning'',
                 message = ''Class '' @ quote @ name @ quote @ '' has complexity ''
                           @ str_int complexity @ '' (max ''
                           @ str_int (max_class_complexity cfg) @ '')'',
                 suggestion = Some ''Consider splitting the class into multiple classes'' \<rparr>]
         else [])"
| "complexity_issues cfg fp node = []"

definition complexity_analysis_error :: "string \<Rightarrow> string \<Rightarrow> CodeIssue" where
  "complexity_analysis_error fp e =
     \<lparr> file_path = fp, line_number = 0, issue_type = ''complexity_analysis_error'',
       severity = ''error'', message = ''Failed to analyze complexity: '' @ e,
       suggestion = None \<rparr>"

definition analyze_complexity :: "Config \<Rightarrow> SourceFile \<Rightarrow> CodeIssue list" where
  "analyze_complexity cfg f =
     (case parse_file f of
        Inl e \<Rightarrow> [complexity_analysis_error (path f) e]
      | Inr tree \<Rightarrow> concat (map (complexity_issues cfg (path f)) (walk tree)))"

definition naming_issue :: "string \<Rightarrow> nat \<Rightarrow> string \<Rightarrow> string \<Rightarrow> string \<Rightarrow> CodeIssue" where
  "naming_issue fp lineno sev msg sugg =
     \<lparr> file_path = fp, line_number = lineno, issue_type = ''naming_convention'',
       severity = sev, message = msg, suggestion = Some sugg \<rparr>"

fun is_store :: "ast \<Rightarrow> bool" where
  "is_store Store = True"
| "is_store ctx = False"

text \<open>
  The loop of \<open>check_naming_conventions\<close> over the walk, with the issues appended so
  far.  \<open>node.name[0]\<close> raises \<open>IndexError\<close> on an empty class name; the loop then stops
  with the issues so far and the text of the exception.
\<close>

fun naming_loop :: "string \<Rightarrow> ast list \<Rightarrow> CodeIssue list \<Rightarrow> CodeIssue list \<times> string option" where
  "naming_loop fp [] issues = (issues, None)"
| "naming_loop fp (FunctionDef name lineno cs # rest) issues =
     naming_loop fp rest
       (if \<not> islower name \<and> \<not> contains_underscore name
        then issues @ [naming_issue fp lineno ''warning''
               (''Function '' @ quote @ name @ quote @ '' should use snake_case naming'')
               (''Rename function to use snake_case (e.g., '' @ quote @ ''my_function'' @ quote @ '')'')]
        else issues)"
| "naming_loop fp (ClassDef name lineno pre body post # rest) issues =
     (case name of
        [] \<Rightarrow> (issues, Some ''string index out of range'')
      | c # cs \<Rightarrow>
          naming_loop fp rest
            (if \<not> isupper [c] \<or> contains_underscore name
             then issues @ [naming_issue fp lineno ''warning''
                    (''Class '' @ quote @ name @ quote @ '' should use PascalCase naming'')
                    (''Rename class to use PascalCase (e.g., '' @ quote @ ''MyClass'' @ quote @ '')'')]
             else issues))"
| "naming_loop fp (Name ident lineno ctx # rest) issues =
     naming_loop fp rest
       (if is_store ctx
        then (if \<not> islower ident \<and> \<not> contains_underscore ident \<and> \<not> isupper ident
              then issues @ [naming_issue fp lineno ''info''
                     (''Variable '' @ quote @ ident @ quote @ '' should use snake_case naming'')
                     (''Rename variable to use snake_case (e.g., '' @ quote @ ''my_variable'' @ quote @ '')'')]
              else issues)
        else issues)"
| "naming_loop fp (node # rest) issues = naming_loop fp rest issues"

definition naming_analysis_error :: "string \<Rightarrow> string \<Rightarrow> CodeIssue" where
  "naming_analysis_error fp e =
     \<lparr> file_path = fp, line_number = 0, issue_type = ''naming_analysis_error'',
       severity = ''error'', message = ''Failed to analyze naming conventions: '' @ e,
       suggestion = None \<rparr>"

definition check_naming_conventions :: "SourceFile \<Rightarrow> CodeIssue list" where
  "check_naming_conventions f =
     (case parse_file f of
        Inl e \<Rightarrow> [naming_analysis_error (path f) e]
      | Inr tree \<Rightarrow>
          (case naming_loop (path f) (walk tree) [] of
             (issues, None) \<Rightarrow> issues
           | (issues, Some e) \<Rightarrow> issues @ [naming_analysis_error (path f) e]))"

section \<open>Metrics\<close>

definition zero_metrics :: CodeMetrics where
  "zero_metrics =
     \<lparr> lines_of_code = 0, comment_lines = 0, blank_lines = 0, function_count = 0,
       class_count = 0, complexity = 0, maintainability_index = 0 \<rparr>"

fun is_plain_def :: "ast \<Rightarrow> bool" where
  "is_plain_def (FunctionDef name lineno cs) = True"
| "is_plain_def n = False"

fun is_class_def :: "ast \<Rightarrow> bool" where
  "is_class_def (ClassDef name lineno pre body post) = True"
| "is_class_def n = False"

text \<open>The body of the complexity loop of \<open>calculate_metrics\<close>, for one node of the walk.\<close>

fun file_complexity_step :: "ast \<Rightarrow> int \<Rightarrow> int" where
  "file_complexity_step (FunctionDef name lineno cs) c =
     c + calculate_complexity (FunctionDef name lineno cs)"
| "file_complexity_step node c = c"

definition calculate_metrics :: "SourceFile \<Rightarrow> CodeMetrics" where
  "calculate_metrics f =
     (case reading f of
        ReadError seen e \<Rightarrow> zero_metrics
      | ReadOk lines \<Rightarrow>
          (let total_lines = int (length lines);
               comment_lines = int (length (filter (\<lambda>line. startswith_hash (strip line)) lines));
               blank_lines = int (length (filter (\<lambda>line. strip line = []) lines));
               code_lines = total_lines - comment_lines - blank_lines
           in case parsing f of
                Parsed tree \<Rightarrow>
                  (let function_count = int (length (filter is_plain_def (walk tree)));
                       class_count = int (length (filter is_class_def (walk tree)));
                       complexity = fold file_complexity_step (walk tree) 0;
                       maintainability =
                         max 0 (171 - 5.2 * real_of_int complexity - 0.23 * real_of_int code_lines
                                    - 16.2 * real_of_int function_count)
                   in \<lparr> lines_of_code = code_lines, comment_lines = comment_lines,
                        blank_lines = blank_lines, function_count = function_count,
                        class_count = class_count, complexity = complexity,
                        maintainability_index = maintainability \<rparr>)
              | SyntaxError lineno msg e \<Rightarrow> zero_metrics
              | ParseException e \<Rightarrow> zero_metrics))"

section \<open>Analysis of a file and of a project\<close>

text \<open>
  \<open>self.metrics\<close> is a dictionary from the path of a file to its metrics.  A Python
  dictionary keeps its keys in insertion order, and assigning to a key that is present
  keeps the key's place.
\<close>

type_synonym metrics_dict = "(string \<times> CodeMetrics) list"

fun dict_set :: "metrics_dict \<Rightarrow> string \<Rightarrow> CodeMetrics \<Rightarrow> metrics_dict" where
  "dict_set [] k v = [(k, v)]"
| "dict_set ((k', v') # d) k v = (if k' = k then (k, v) # d else (k', v') # dict_set d k v)"

definition dict_values :: "metrics_dict \<Rightarrow> CodeMetrics list" where
  "dict_values d = map snd d"

text \<open>
  \<open>analyze_file\<close> returns the issues of the file and stores its metrics.  The external
  tool (\<open>run_external_tools\<close>, a subprocess) is a parameter: the issues it reports for a
  file.
\<close>

definition analyze_file ::
  "Config \<Rightarrow> (SourceFile \<Rightarrow> CodeIssue list) \<Rightarrow> SourceFile \<Rightarrow> metrics_dict
     \<Rightarrow> CodeIssue list \<times> metrics_dict" where
  "analyze_file cfg run_external_tools f metrics_by_file =
     (analyze_syntax f
        @ check_line_length cfg f
        @ check_naming_conventions f
        @ analyze_complexity cfg f
        @ run_external_tools f,
      dict_set metrics_by_file (path f) (calculate_metrics f))"

text \<open>\<open>round(score, 2)\<close> in exact arithmetic: to the nearest hundredth, a tie to the even one.\<close>

definition round2 :: "real \<Rightarrow> real" where
  "round2 x =
     (let y = x * 100; n = \<lfloor>y\<rfloor>; d = y - of_int n
      in (if d < 1 / 2 then of_int n
          else if d > 1 / 2 then of_int (n + 1)
          else if even n then of_int n else of_int (n + 1)) / 100)"

definition severity_weight :: "Config \<Rightarrow> string \<Rightarrow> int" where
  "severity_weight cfg sev = (case severity_weights cfg sev of None \<Rightarrow> 1 | Some w \<Rightarrow> w)"

definition calculate_quality_score :: "Config \<Rightarrow> CodeIssue list \<Rightarrow> CodeMetrics \<Rightarrow> real" where
  "calculate_quality_score cfg issues metrics =
     (if issues = [] then 100
      else
        (let total_penalty = fold (\<lambda>issue p. p + severity_weight cfg (severity issue)) issues 0;
             complexity_penalty = min (complexity metrics * 2) 20;
             maintainability_penalty = max 0 (50 - maintainability_index metrics);
             total_penalty = real_of_int total_penalty
                             + (real_of_int complexity_penalty + maintainability_penalty);
             score = max 0 (100 - total_penalty)
         in round2 score))"

text \<open>A \<open>defaultdict(int)\<close> of counts: \<open>counts[key] += 1\<close>.\<close>

fun count_incr :: "string \<Rightarrow> (string \<times> nat) list \<Rightarrow> (string \<times> nat) list" where
  "count_incr k [] = [(k, 1)]"
| "count_incr k ((k', n) # d) = (if k' = k then (k, n + 1) # d else (k', n) # count_incr k d)"

record Summary =
  summary_total_files :: nat
  summary_total_issues :: nat
  issues_by_severity :: "(string \<times> nat) list"
  issues_by_type :: "(string \<times> nat) list"
  quality_score :: real

record QualityReport =
  project_path :: string
  total_files :: nat
  total_issues :: nat
  metrics :: CodeMetrics
  issues :: "CodeIssue list"
  summary :: Summary

text \<open>
  The first loop of \<open>run_analysis\<close>, over the files found; the state is
  \<open>total_issues\<close> (here \<open>n_issues\<close>), \<open>all_issues\<close> and \<open>self.metrics\<close>.
\<close>

fun analysis_loop ::
  "Config \<Rightarrow> (SourceFile \<Rightarrow> CodeIssue list) \<Rightarrow> SourceFile list
     \<Rightarrow> nat \<times> CodeIssue list \<times> metrics_dict \<Rightarrow> nat \<times> CodeIssue list \<times> metrics_dict" where
  "analysis_loop cfg tools [] state = state"
| "analysis_loop cfg tools (f # fs) (n_issues, all_issues, metrics_by_file) =
     (case analyze_file cfg tools f metrics_by_file of
        (file_issues, metrics_by_file') \<Rightarrow>
          analysis_loop cfg tools fs
            (n_issues + length file_issues, all_issues @ file_issues, metrics_by_file'))"

text \<open>The body of the loop that adds the metrics of one file to the totals.\<close>

definition add_metrics :: "CodeMetrics \<Rightarrow> CodeMetrics \<Rightarrow> CodeMetrics" where
  "add_metrics m tm =
     tm \<lparr> lines_of_code := lines_of_code tm + lines_of_code m,
             comment_lines := comment_lines tm + comment_lines m,
             blank_lines := blank_lines tm + blank_lines m,
             function_count := function_count tm + function_count m,
             class_count := class_count tm + class_count m,
             complexity := complexity tm + complexity m \<rparr>"

definition aggregate_metrics :: "metrics_dict \<Rightarrow> CodeMetrics" where
  "aggregate_metrics d =
     (let total_metrics = fold add_metrics (dict_values d) zero_metrics
      in if length d > 0
         then total_metrics \<lparr> maintainability_index :=
                sum_list (map maintainability_index (dict_values d)) / real (length d) \<rparr>
         else total_metrics)"

text \<open>
  \<open>run_analysis\<close>, from the list of files that \<open>find_python_files\<close> returns and the
  dictionary \<open>self.metrics\<close> of the checker; it returns the report and the dictionary
  as the run leaves it.  A checker fresh from \<open>__init__\<close> has the empty dictionary.
\<close>

definition run_analysis ::
  "string \<Rightarrow> Config \<Rightarrow> (SourceFile \<Rightarrow> CodeIssue list) \<Rightarrow> metrics_dict \<Rightarrow> SourceFile list
     \<Rightarrow> QualityReport \<times> metrics_dict" where
  "run_analysis project cfg tools metrics_by_file python_files =
     (case analysis_loop cfg tools python_files (0, [], metrics_by_file) of
        (n_issues, all_issues, metrics_by_file') \<Rightarrow>
          (let total_metrics = aggregate_metrics metrics_by_file';
               score = calculate_quality_score cfg all_issues total_metrics;
               by_severity = fold (\<lambda>issue. count_incr (severity issue)) all_issues [];
               by_type = fold (\<lambda>issue. count_incr (issue_type issue)) all_issues []
           in (\<lparr> project_path = project,
                 total_files = length python_files,
                 total_issues = n_issues,
                 metrics = total_metrics,
                 issues = all_issues,
                 summary = \<lparr> summary_total_files = length python_files,
                             summary_total_issues = n_issues,
                             issues_by_severity = by_severity,
                             issues_by_type = by_type,
                             quality_score = score \<rparr> \<rparr>,
               metrics_by_file')))"

section \<open>Properties of the complexity measure\<close>

text \<open>What one node of the walk adds to the running complexity.\<close>

definition node_weight :: "ast \<Rightarrow> int" where
  "node_weight n = complexity_step n 0"

fun is_if :: "ast \<Rightarrow> bool" where
  "is_if (If_stmt cs) = True"
| "is_if n = False"

fun is_loop :: "ast \<Rightarrow> bool" where
  "is_loop (While cs) = True"
| "is_loop (For cs) = True"
| "is_loop (AsyncFor cs) = True"
| "is_loop n = False"

fun is_handler :: "ast \<Rightarrow> bool" where
  "is_handler (ExceptHandler cs) = True"
| "is_handler n = False"

fun is_boolop :: "ast \<Rightarrow> bool" where
  "is_boolop (BoolOp op vals) = True"
| "is_boolop n = False"

fun operand_count :: "ast \<Rightarrow> int" where
  "operand_count (BoolOp op vals) = int (length vals)"
| "operand_count n = 0"

lemma complexity_step_weight: "complexity_step n c = c + node_weight n"
  by (cases n) (simp_all add: node_weight_def)

lemma fold_complexity_step:
  "fold complexity_step ns c = c + sum_list (map node_weight ns)"
proof (induction ns arbitrary: c)
  case Nil
  show ?case by simp
next
  case (Cons n ns)
  show ?case
    by (simp add: Cons.IH complexity_step_weight [of n c])
qed

lemma calculate_complexity_sum:
  "calculate_complexity node = 1 + sum_list (map node_weight (walk node))"
  by (simp add: calculate_complexity_def fold_complexity_step)

lemma node_weight_cases:
  "node_weight n =
     (if is_if n then 1 else 0) + (if is_loop n then 1 else 0)
     + (if is_handler n then 1 else 0) + (if is_boolop n then operand_count n - 1 else 0)"
  by (cases n) (simp_all add: node_weight_def)

lemma sum_node_weight:
  "sum_list (map node_weight ns) =
     int (length (filter is_if ns)) + int (length (filter is_loop ns))
     + int (length (filter is_handler ns))
     + (\<Sum>b \<leftarrow> filter is_boolop ns. operand_count b - 1)"
proof (induction ns)
  case Nil
  show ?case by simp
next
  case (Cons n ns)
  show ?case
    unfolding list.map sum_list.Cons Cons.IH node_weight_cases [of n]
    by simp
qed

text \<open>
  Claim C5.  The complexity of a function definition (of any node, in fact) is 1, plus the
  number of \<open>if\<close> statements, plus the number of loops (\<open>for\<close>, \<open>while\<close>, \<open>async for\<close>),
  plus the number of exception handlers, plus operand count minus one for every boolean
  chain, all counted over the nodes of the walk.  Hence a function with none of these
  has complexity 1, and one with exactly two \<open>if\<close> statements and one \<open>while\<close> loop has
  complexity 4.
\<close>

theorem function_complexity_formula:
  "calculate_complexity node =
       1 + int (length (filter is_if (walk node)))
         + int (length (filter is_loop (walk node)))
         + int (length (filter is_handler (walk node)))
         + (\<Sum>b \<leftarrow> filter is_boolop (walk node). operand_count b - 1)
   \<and> ((\<forall>n \<in> set (walk node). \<not> is_if n \<and> \<not> is_loop n \<and> \<not> is_handler n \<and> \<not> is_boolop n)
          \<longrightarrow> calculate_complexity node = 1)
   \<and> (length (filter is_if (walk node)) = 2
          \<and> filter is_loop (walk node) = [While body]
          \<and> filter is_handler (walk node) = []
          \<and> filter is_boolop (walk node) = []
          \<longrightarrow> calculate_complexity node = 4)"
proof -
  have formula: "calculate_complexity node =
       1 + int (length (filter is_if (walk node)))
         + int (length (filter is_loop (walk node)))
         + int (length (filter is_handler (walk node)))
         + (\<Sum>b \<leftarrow> filter is_boolop (walk node). operand_count b - 1)"
    by (simp add: calculate_complexity_sum sum_node_weight)
  have none: "calculate_complexity node = 1"
    if "\<forall>n \<in> set (walk node). \<not> is_if n \<and> \<not> is_loop n \<and> \<not> is_handler n \<and> \<not> is_boolop n"
  proof -
    have "filter is_if (walk node) = []" "filter is_loop (walk node) = []"
      "filter is_handler (walk node) = []" "filter is_boolop (walk node) = []"
      using that by (simp_all add: filter_empty_conv)
    then show ?thesis
      unfolding formula by simp
  qed
  have two_one: "calculate_complexity node = 4"
    if "length (filter is_if (walk node)) = 2
          \<and> filter is_loop (walk node) = [While body]
          \<and> filter is_handler (walk node) = []
          \<and> filter is_boolop (walk node) = []"
    unfolding formula using that by simp
  show ?thesis
    using formula none two_one by blast
qed

text \<open>
  The theorem at \<open>def f(x): if x: pass; if x: pass; while x: pass\<close>, whose argument list
  and \<open>pass\<close> statements are nodes of no counted kind.
\<close>

definition two_ifs_one_while :: ast where
  "two_ifs_one_while =
     FunctionDef ''f'' 1
       [Other [Other []],
        If_stmt [Name ''x'' 2 Load, Other []],
        If_stmt [Name ''x'' 4 Load, Other []],
        While [Name ''x'' 6 Load, Other []]]"

theorem function_complexity_formula_witness:
  "length (filter is_if (walk two_ifs_one_while)) = 2
   \<and> filter is_loop (walk two_ifs_one_while) = [While [Name ''x'' 6 Load, Other []]]
   \<and> filter is_handler (walk two_ifs_one_while) = []
   \<and> filter is_boolop (walk two_ifs_one_while) = []
   \<and> calculate_complexity two_ifs_one_while = 4
   \<and> filter (\<lambda>n. is_if n \<or> is_loop n \<or> is_handler n \<or> is_boolop n)
         (walk (FunctionDef ''g'' 1 [Other [], Other []])) = []
   \<and> calculate_complexity (FunctionDef ''g'' 1 [Other [], Other []]) = 1"
proof -
  have a: "length (filter is_if (walk two_ifs_one_while)) = 2
   \<and> filter is_loop (walk two_ifs_one_while) = [While [Name ''x'' 6 Load, Other []]]
   \<and> filter is_handler (walk two_ifs_one_while) = []
   \<and> filter is_boolop (walk two_ifs_one_while) = []"
    by (simp add: walk_def two_ifs_one_while_def)
  have b: "\<forall>n \<in> set (walk (FunctionDef ''g'' 1 [Other [], Other []])).
          \<not> is_if n \<and> \<not> is_loop n \<and> \<not> is_handler n \<and> \<not> is_boolop n"
    by (simp add: walk_def)
  have c: "filter (\<lambda>n. is_if n \<or> is_loop n \<or> is_handler n \<or> is_boolop n)
         (walk (FunctionDef ''g'' 1 [Other [], Other []])) = []"
    by (simp add: walk_def)
  show ?thesis
    using a b c
      function_complexity_formula [of two_ifs_one_while "[Name ''x'' 6 Load, Other []]"]
      function_complexity_formula [of "FunctionDef ''g'' 1 [Other [], Other []]"]
    by blast
qed

section \<open>The walk and the subtree\<close>








section \<open>Nested function definitions\<close>

text \<open>
  Following the words of the specification: the direct control-flow subtree of a function
  leaves out the nested function definitions and what is below them, and the complexity
  is counted on what remains.
\<close>

fun is_function_def :: "ast \<Rightarrow> bool" where
  "is_function_def (FunctionDef name lineno cs) = True"
| "is_function_def (AsyncFunctionDef name lineno cs) = True"
| "is_function_def n = False"







section \<open>Class complexity\<close>

lemma fold_class_complexity_step:
  "fold class_complexity_step items c
     = c + (\<Sum>m \<leftarrow> filter is_plain_def items. calculate_complexity m)"
proof (induction items arbitrary: c)
  case Nil
  show ?case by simp
next
  case (Cons item items)
  show ?case
    by (cases item) (simp_all add: Cons.IH)
qed

text \<open>
  Following the words of the specification: the sum of the function complexity over
  every method defined directly in the class body, a method being a function definition
  of either kind.
\<close>

fun spec_class_complexity :: "ast \<Rightarrow> int" where
  "spec_class_complexity (ClassDef name lineno pre body post) =
     (\<Sum>m \<leftarrow> filter is_function_def body. calculate_complexity m)"
| "spec_class_complexity node = 0"

text \<open>\<open>class A: async def m(self): if x: pass\<close>\<close>

definition async_method_class :: ast where
  "async_method_class =
     ClassDef ''A'' 1 [] [AsyncFunctionDef ''m'' 2 [Other [], If_stmt [Name ''x'' 3 Load, Other []]]] []"

text \<open>
  Claim C6 as stated fails where a method is asynchronous: the method has complexity 2,
  and the class has complexity 0.
\<close>

theorem class_complexity_counterexample:
  "calculate_complexity (AsyncFunctionDef ''m'' 2 [Other [], If_stmt [Name ''x'' 3 Load, Other []]]) = 2
   \<and> spec_class_complexity async_method_class = 2
   \<and> calculate_class_complexity async_method_class = 0"
  by (simp add: async_method_class_def calculate_complexity_def walk_def)

text \<open>
  Claim C6, amended.  The complexity of a class is the sum of the function complexity
  over exactly the plain (not asynchronous) function definitions that are items of the
  class body; the methods of nested classes, which are not items of the body, are not
  counted.  A class with no such method has complexity 0, and a class with two of them,
  of complexity 3 and 5, has complexity 8.
\<close>

theorem class_complexity_sum:
  "calculate_class_complexity (ClassDef name lineno pre body post)
       = (\<Sum>m \<leftarrow> filter is_plain_def body. calculate_complexity m)
   \<and> (filter is_plain_def body = []
          \<longrightarrow> calculate_class_complexity (ClassDef name lineno pre body post) = 0)
   \<and> (filter is_plain_def body = [m1, m2]
          \<and> calculate_complexity m1 = 3 \<and> calculate_complexity m2 = 5
          \<longrightarrow> calculate_class_complexity (ClassDef name lineno pre body post) = 8)"
  by (simp add: fold_class_complexity_step)

text \<open>
  The theorem at a class with a method of complexity 3, one of complexity 5, an
  asynchronous method and a nested class with a method of its own, and at a class whose
  body has no method.
\<close>

definition method3 :: ast where
  "method3 = FunctionDef ''a'' 2 [Other [], If_stmt [Other []], While [Other []]]"

definition method5 :: ast where
  "method5 =
     FunctionDef ''b'' 7
       [Other [], For [Other [], If_stmt [BoolOp And_op [Other [], Other [], Other []]]]]"

definition two_method_class :: ast where
  "two_method_class =
     ClassDef ''K'' 1 [Other []]
       [method3,
        AsyncFunctionDef ''c'' 5 [Other [], If_stmt [Other []]],
        method5,
        ClassDef ''Inner'' 10 [] [FunctionDef ''d'' 11 [Other [], If_stmt [Other []]]] []]
       []"

theorem class_complexity_sum_witness:
  "filter is_plain_def
       [method3, AsyncFunctionDef ''c'' 5 [Other [], If_stmt [Other []]], method5,
        ClassDef ''Inner'' 10 [] [FunctionDef ''d'' 11 [Other [], If_stmt [Other []]]] []]
     = [method3, method5]
   \<and> calculate_complexity method3 = 3
   \<and> calculate_complexity method5 = 5
   \<and> calculate_class_complexity two_method_class = 8
   \<and> calculate_class_complexity (ClassDef ''E'' 1 [] [Other []] []) = 0"
proof -
  have a: "filter is_plain_def
       [method3, AsyncFunctionDef ''c'' 5 [Other [], If_stmt [Other []]], method5,
        ClassDef ''Inner'' 10 [] [FunctionDef ''d'' 11 [Other [], If_stmt [Other []]]] []]
     = [method3, method5]"
    by (simp add: method3_def method5_def)
  have b: "calculate_complexity method3 = 3"
    by (simp add: method3_def calculate_complexity_def walk_def)
  have c: "calculate_complexity method5 = 5"
    by (simp add: method5_def calculate_complexity_def walk_def)
  have d: "filter is_plain_def [Other []] = []"
    by simp
  show ?thesis
    unfolding two_method_class_def
    using a b c d
      class_complexity_sum [of "''K''" 1 "[Other []]" _ "[]" method3 method5]
      class_complexity_sum [of "''E''" 1 "[]" "[Other []]" "[]"]
    by blast
qed

section \<open>The quality score\<close>













section \<open>The line-length detector\<close>






text \<open>
  The theorem at a file whose second line is \<open>if x:\<close> followed by six spaces and a newline,
  with a maximum of 8: the line is reported as 5 characters long (max 8).
\<close>

definition padded_file :: SourceFile where
  "padded_file =
     \<lparr> path = ''a.py'',
       reading = ReadOk [''x = 1'' @ [CHR 0x0A], ''if x:      '' @ [CHR 0x0A]],
       parsing = Parsed (Module []) \<rparr>"

definition narrow_config :: Config where
  "narrow_config = get_default_config \<lparr> max_line_length := 8 \<rparr>"


section \<open>The maintainability index\<close>

text \<open>
  Claim C4.  For a file that parses, the maintainability index is
  \<open>max(0, 171 - 5.2 * complexity - 0.23 * lines_of_code - 16.2 * function_count)\<close> of the
  file's own metrics (in exact arithmetic); it is never negative, for any file; and
  with no function, complexity 0 and no line of code it is 171.
\<close>

theorem maintainability_index_formula:
  "0 \<le> maintainability_index (calculate_metrics f)
   \<and> (reading f = ReadOk lines \<and> parsing f = Parsed tree \<longrightarrow>
        maintainability_index (calculate_metrics f)
          = max 0 (171 - 5.2 * real_of_int (complexity (calculate_metrics f))
                       - 0.23 * real_of_int (lines_of_code (calculate_metrics f))
                       - 16.2 * real_of_int (function_count (calculate_metrics f)))
        \<and> (complexity (calculate_metrics f) = 0 \<and> lines_of_code (calculate_metrics f) = 0
               \<and> function_count (calculate_metrics f) = 0
             \<longrightarrow> maintainability_index (calculate_metrics f) = 171))"
  by (auto simp: calculate_metrics_def zero_metrics_def Let_def
      split: read_result.splits parse_result.splits)

text \<open>
  The theorem at the empty file, and at a file of five lines (a comment, a blank line,
  three lines of code) with one function of complexity 2, whose index is
  171 - 10.4 - 0.69 - 16.2.
\<close>

definition empty_file :: SourceFile where
  "empty_file = \<lparr> path = ''empty.py'', reading = ReadOk [], parsing = Parsed (Module []) \<rparr>"

definition small_file :: SourceFile where
  "small_file =
     \<lparr> path = ''small.py'',
       reading = ReadOk [''# c'' @ [CHR 0x0A], ''def f(x):'' @ [CHR 0x0A],
                         ''    if x:'' @ [CHR 0x0A], [CHR 0x0A], ''        pass''],
       parsing = Parsed (Module [FunctionDef ''f'' 2
                   [Other [Other []], If_stmt [Name ''x'' 3 Load, Other []]]]) \<rparr>"

lemma small_file_metrics:
  "complexity (calculate_metrics small_file) = 2"
  "lines_of_code (calculate_metrics small_file) = 3"
  "function_count (calculate_metrics small_file) = 1"
  by (simp_all add: calculate_metrics_def small_file_def Let_def walk_def
      calculate_complexity_def strip_def rstrip_def isspace_def startswith_hash_def)

lemma empty_file_metrics:
  "complexity (calculate_metrics empty_file) = 0"
  "lines_of_code (calculate_metrics empty_file) = 0"
  "function_count (calculate_metrics empty_file) = 0"
  by (simp_all add: calculate_metrics_def empty_file_def Let_def walk_def)

theorem maintainability_index_formula_witness:
  "reading empty_file = ReadOk [] \<and> parsing empty_file = Parsed (Module [])
   \<and> complexity (calculate_metrics empty_file) = 0
   \<and> lines_of_code (calculate_metrics empty_file) = 0
   \<and> function_count (calculate_metrics empty_file) = 0
   \<and> maintainability_index (calculate_metrics empty_file) = 171
   \<and> maintainability_index (calculate_metrics small_file) = 143.71"
proof -
  have e: "reading empty_file = ReadOk [] \<and> parsing empty_file = Parsed (Module [])"
    by (simp add: empty_file_def)
  have s: "reading small_file = ReadOk [''# c'' @ [CHR 0x0A], ''def f(x):'' @ [CHR 0x0A],
                         ''    if x:'' @ [CHR 0x0A], [CHR 0x0A], ''        pass'']
           \<and> parsing small_file = Parsed (Module [FunctionDef ''f'' 2
                   [Other [Other []], If_stmt [Name ''x'' 3 Load, Other []]]])"
    by (simp add: small_file_def)
  have "maintainability_index (calculate_metrics empty_file) = 171"
    using maintainability_index_formula [of empty_file "[]" "Module []"] e empty_file_metrics
    by blast
  moreover have "maintainability_index (calculate_metrics small_file)
          = max 0 (171 - 5.2 * real_of_int (complexity (calculate_metrics small_file))
                       - 0.23 * real_of_int (lines_of_code (calculate_metrics small_file))
                       - 16.2 * real_of_int (function_count (calculate_metrics small_file)))"
    using maintainability_index_formula [of small_file] s by blast
  then have "maintainability_index (calculate_metrics small_file) = 143.71"
    unfolding small_file_metrics by simp
  ultimately show ?thesis
    using e empty_file_metrics by simp
qed

section \<open>The report of a run\<close>

lemma fst_analyze_file:
  "fst (analyze_file cfg tools f d) = fst (analyze_file cfg tools f [])"
  by (simp add: analyze_file_def)

lemma snd_analyze_file:
  "snd (analyze_file cfg tools f d) = dict_set d (path f) (calculate_metrics f)"
  by (simp add: analyze_file_def)

lemma analysis_loop_result:
  "analysis_loop cfg tools fs (n, acc, d)
     = (n + (\<Sum>f \<leftarrow> fs. length (fst (analyze_file cfg tools f []))),
        acc @ concat (map (\<lambda>f. fst (analyze_file cfg tools f [])) fs),
        fold (\<lambda>f d. dict_set d (path f) (calculate_metrics f)) fs d)"
proof (induction fs arbitrary: n acc d)
  case Nil
  show ?case by simp
next
  case (Cons f fs)
  obtain file_issues d' where a: "analyze_file cfg tools f d = (file_issues, d')"
    by (cases "analyze_file cfg tools f d")
  have fi: "file_issues = fst (analyze_file cfg tools f [])"
    using a fst_analyze_file [of cfg tools f d] by simp
  have d': "d' = dict_set d (path f) (calculate_metrics f)"
    using a snd_analyze_file [of cfg tools f d] by simp
  show ?case
    by (simp add: a Cons.IH) (simp add: fi d')
qed

lemma total_issues_run:
  "total_issues (fst (run_analysis project cfg tools d fs))
     = (\<Sum>f \<leftarrow> fs. length (fst (analyze_file cfg tools f [])))"
  by (simp add: run_analysis_def analysis_loop_result Let_def)

lemma issues_run:
  "issues (fst (run_analysis project cfg tools d fs))
     = concat (map (\<lambda>f. fst (analyze_file cfg tools f [])) fs)"
  by (simp add: run_analysis_def analysis_loop_result Let_def)

lemma sum_list_nat_mset_cong:
  fixes g :: "'a \<Rightarrow> nat"
  assumes "mset xs = mset ys"
  shows "sum_list (map g xs) = sum_list (map g ys)"
proof -
  have "sum_list (map g zs) = sum_mset (image_mset g (mset zs))" for zs
    by (metis mset_map sum_mset_sum_list)
  then show ?thesis
    using assms by simp
qed

lemma sum_list_concat_map:
  fixes g :: "'a \<Rightarrow> nat"
  shows "(\<Sum>part \<leftarrow> parts. \<Sum>x \<leftarrow> part. g x) = (\<Sum>x \<leftarrow> concat parts. g x)"
  by (induction parts) simp_all

text \<open>
  Claim C7.  In the report of a run over any list of files, \<open>total_issues\<close> is the
  length of the list of issues and the sum over the files of the number of issues of
  each file (the issues of a file do not depend on the other files).  When the files
  are split into parts in any way and any order, each part is analysed by a run of its
  own, and the totals are added, the result is the total of the run over all the
  files.
\<close>

theorem total_issues_invariant:
  "total_issues (fst (run_analysis project cfg tools d files))
       = length (issues (fst (run_analysis project cfg tools d files)))
   \<and> total_issues (fst (run_analysis project cfg tools d files))
       = (\<Sum>f \<leftarrow> files. length (fst (analyze_file cfg tools f d')))
   \<and> (mset (concat parts) = mset files \<longrightarrow>
        (\<Sum>part \<leftarrow> parts. total_issues (fst (run_analysis project cfg tools [] part)))
          = total_issues (fst (run_analysis project cfg tools [] files))
        \<and> length (concat (map (\<lambda>part. issues (fst (run_analysis project cfg tools [] part))) parts))
          = total_issues (fst (run_analysis project cfg tools [] files)))"
proof -
  let ?n = "\<lambda>f. length (fst (analyze_file cfg tools f []))"
  have a: "total_issues (fst (run_analysis project cfg tools d files))
       = length (issues (fst (run_analysis project cfg tools d files)))"
    by (simp add: total_issues_run issues_run length_concat comp_def)
  have b: "total_issues (fst (run_analysis project cfg tools d files))
       = (\<Sum>f \<leftarrow> files. length (fst (analyze_file cfg tools f d')))"
    unfolding total_issues_run fst_analyze_file [of cfg tools _ d'] by (rule refl)
  have c: "(\<Sum>part \<leftarrow> parts. total_issues (fst (run_analysis project cfg tools [] part)))
          = total_issues (fst (run_analysis project cfg tools [] files))"
    if "mset (concat parts) = mset files"
  proof -
    have "(\<Sum>part \<leftarrow> parts. total_issues (fst (run_analysis project cfg tools [] part)))
            = (\<Sum>f \<leftarrow> concat parts. ?n f)"
      unfolding total_issues_run by (rule sum_list_concat_map)
    also have "\<dots> = (\<Sum>f \<leftarrow> files. ?n f)"
      using that by (rule sum_list_nat_mset_cong)
    finally show ?thesis
      unfolding total_issues_run .
  qed
  have e: "length (concat (map (\<lambda>part. issues (fst (run_analysis project cfg tools [] part))) parts))
          = (\<Sum>part \<leftarrow> parts. total_issues (fst (run_analysis project cfg tools [] part)))"
    by (simp add: length_concat comp_def total_issues_run issues_run)
  show ?thesis
    using a b c e by simp
qed

section \<open>Files that fail to parse\<close>




text \<open>
  A file whose only line is \<open>def f(:\<close>; \<open>ast.parse\<close> raises \<open>SyntaxError\<close> on its text.
\<close>

definition broken_file :: SourceFile where
  "broken_file =
     \<lparr> path = ''broken.py'',
       reading = ReadOk [''def f(:'' @ [CHR 0x0A]],
       parsing = SyntaxError (Some 1) ''invalid syntax'' ''invalid syntax (<unknown>, line 1)'' \<rparr>"






text \<open>
  The theorem at three files, of which one does not parse, under a maximum line length
  of 8 and with an external tool that reports nothing: 1 + 3 + 3 issues, also when
  the files are analysed in three parts, one of them empty.
\<close>

lemma example_issue_counts:
  "length (fst (analyze_file narrow_config (\<lambda>f. []) padded_file [])) = 1"
  "length (fst (analyze_file narrow_config (\<lambda>f. []) small_file [])) = 3"
  "length (fst (analyze_file narrow_config (\<lambda>f. []) broken_file [])) = 3"
  by code_simp+

theorem total_issues_invariant_witness:
  "mset (concat [[broken_file], [], [small_file, padded_file]])
     = mset [padded_file, small_file, broken_file]
   \<and> total_issues (fst (run_analysis ''proj'' narrow_config (\<lambda>f. []) []
        [padded_file, small_file, broken_file])) = 7
   \<and> length (issues (fst (run_analysis ''proj'' narrow_config (\<lambda>f. []) []
        [padded_file, small_file, broken_file]))) = 7
   \<and> (\<Sum>part \<leftarrow> [[broken_file], [], [small_file, padded_file]].
         total_issues (fst (run_analysis ''proj'' narrow_config (\<lambda>f. []) [] part))) = 7"
proof -
  let ?files = "[padded_file, small_file, broken_file]"
  let ?parts = "[[broken_file], [], [small_file, padded_file]]"
  note t = total_issues_invariant [of "''proj''" narrow_config "\<lambda>f. []" "[]" ?files "[]" ?parts]
  have m: "mset (concat ?parts) = mset ?files"
    by simp
  have n: "total_issues (fst (run_analysis ''proj'' narrow_config (\<lambda>f. []) [] ?files)) = 7"
    using t by (simp add: example_issue_counts)
  have l: "length (issues (fst (run_analysis ''proj'' narrow_config (\<lambda>f. []) [] ?files))) = 7"
    using t n by simp
  have p: "(\<Sum>part \<leftarrow> ?parts.
         total_issues (fst (run_analysis ''proj'' narrow_config (\<lambda>f. []) [] part))) = 7"
    using t m n by simp
  show ?thesis
    using m n l p by blast
qed

section \<open>The metrics of a project\<close>

lemma dict_set_fresh:
  "k \<notin> fst ` set d \<Longrightarrow> dict_set d k v = d @ [(k, v)]"
  by (induction d) auto

lemma fold_dict_set_distinct:
  assumes "distinct (map path fs)" "set (map path fs) \<inter> fst ` set d = {}"
  shows "fold (\<lambda>f d. dict_set d (path f) (calculate_metrics f)) fs d
           = d @ map (\<lambda>f. (path f, calculate_metrics f)) fs"
  using assms
proof (induction fs arbitrary: d)
  case Nil
  show ?case by simp
next
  case (Cons f fs)
  have fresh: "path f \<notin> fst ` set d"
    using Cons.prems(2) by auto
  have step: "dict_set d (path f) (calculate_metrics f) = d @ [(path f, calculate_metrics f)]"
    using fresh by (rule dict_set_fresh)
  have "set (map path fs) \<inter> fst ` set (d @ [(path f, calculate_metrics f)]) = {}"
    using Cons.prems by auto
  moreover have "distinct (map path fs)"
    using Cons.prems(1) by simp
  ultimately show ?case
    using Cons.IH [of "d @ [(path f, calculate_metrics f)]"] step by simp
qed

lemma add_metrics_fields:
  "lines_of_code (add_metrics m tm) = lines_of_code tm + lines_of_code m"
  "comment_lines (add_metrics m tm) = comment_lines tm + comment_lines m"
  "blank_lines (add_metrics m tm) = blank_lines tm + blank_lines m"
  "function_count (add_metrics m tm) = function_count tm + function_count m"
  "class_count (add_metrics m tm) = class_count tm + class_count m"
  "complexity (add_metrics m tm) = complexity tm + complexity m"
  "maintainability_index (add_metrics m tm) = maintainability_index tm"
  by (simp_all add: add_metrics_def)

lemma fold_add_metrics:
  "fold add_metrics ms tm =
     \<lparr> lines_of_code = lines_of_code tm + (\<Sum>m \<leftarrow> ms. lines_of_code m),
       comment_lines = comment_lines tm + (\<Sum>m \<leftarrow> ms. comment_lines m),
       blank_lines = blank_lines tm + (\<Sum>m \<leftarrow> ms. blank_lines m),
       function_count = function_count tm + (\<Sum>m \<leftarrow> ms. function_count m),
       class_count = class_count tm + (\<Sum>m \<leftarrow> ms. class_count m),
       complexity = complexity tm + (\<Sum>m \<leftarrow> ms. complexity m),
       maintainability_index = maintainability_index tm \<rparr>"
proof (induction ms arbitrary: tm)
  case Nil
  show ?case by simp
next
  case (Cons m ms)
  show ?case
    by (simp add: Cons.IH add_metrics_fields)
qed

lemma metrics_run:
  "metrics (fst (run_analysis project cfg tools d fs))
     = aggregate_metrics (fold (\<lambda>f d. dict_set d (path f) (calculate_metrics f)) fs d)"
  by (simp add: run_analysis_def analysis_loop_result Let_def)

text \<open>
  Claim C8.  The metrics of the project (a run of a fresh checker over files of
  distinct paths, as file discovery gives them) are the sums over the files of
  \<open>lines_of_code\<close>, \<open>comment_lines\<close>, \<open>blank_lines\<close>, \<open>function_count\<close>, \<open>class_count\<close> and
  \<open>complexity\<close>, and the arithmetic mean over the files of \<open>maintainability_index\<close>,
  every file with the same weight.  With no file, all of them are zero and the score
  is 100.
\<close>

theorem project_metrics_aggregate:
  "(distinct (map path files) \<longrightarrow>
      metrics (fst (run_analysis project cfg tools [] files)) =
        \<lparr> lines_of_code = (\<Sum>f \<leftarrow> files. lines_of_code (calculate_metrics f)),
          comment_lines = (\<Sum>f \<leftarrow> files. comment_lines (calculate_metrics f)),
          blank_lines = (\<Sum>f \<leftarrow> files. blank_lines (calculate_metrics f)),
          function_count = (\<Sum>f \<leftarrow> files. function_count (calculate_metrics f)),
          class_count = (\<Sum>f \<leftarrow> files. class_count (calculate_metrics f)),
          complexity = (\<Sum>f \<leftarrow> files. complexity (calculate_metrics f)),
          maintainability_index =
            (if files = [] then 0
             else (\<Sum>f \<leftarrow> files. maintainability_index (calculate_metrics f))
                  / real (length files)) \<rparr>)
   \<and> metrics (fst (run_analysis project cfg tools [] [])) = zero_metrics
   \<and> quality_score (summary (fst (run_analysis project cfg tools [] []))) = 100"
proof -
  have "metrics (fst (run_analysis project cfg tools [] files)) =
        \<lparr> lines_of_code = (\<Sum>f \<leftarrow> files. lines_of_code (calculate_metrics f)),
          comment_lines = (\<Sum>f \<leftarrow> files. comment_lines (calculate_metrics f)),
          blank_lines = (\<Sum>f \<leftarrow> files. blank_lines (calculate_metrics f)),
          function_count = (\<Sum>f \<leftarrow> files. function_count (calculate_metrics f)),
          class_count = (\<Sum>f \<leftarrow> files. class_count (calculate_metrics f)),
          complexity = (\<Sum>f \<leftarrow> files. complexity (calculate_metrics f)),
          maintainability_index =
            (if files = [] then 0
             else (\<Sum>f \<leftarrow> files. maintainability_index (calculate_metrics f))
                  / real (length files)) \<rparr>"
    if "distinct (map path files)"
  proof -
    have "fold (\<lambda>f d. dict_set d (path f) (calculate_metrics f)) files []
            = [] @ map (\<lambda>f. (path f, calculate_metrics f)) files"
      using that by (intro fold_dict_set_distinct) simp_all
    then show ?thesis
      by (simp add: metrics_run aggregate_metrics_def dict_values_def fold_add_metrics
          zero_metrics_def comp_def Let_def)
  qed
  moreover have "metrics (fst (run_analysis project cfg tools [] [])) = zero_metrics"
    by (simp add: metrics_run aggregate_metrics_def dict_values_def)
  moreover have "quality_score (summary (fst (run_analysis project cfg tools [] []))) = 100"
    by (simp add: run_analysis_def calculate_quality_score_def Let_def)
  ultimately show ?thesis
    by blast
qed

text \<open>
  The theorem at three files: one of three code lines and index 143.71, the empty file
  of index 171, and a file that does not parse, whose metrics are all zero.  The mean
  index is (143.71 + 171 + 0) / 3.
\<close>

lemma example_metrics:
  "calculate_metrics small_file =
     \<lparr> lines_of_code = 3, comment_lines = 1, blank_lines = 1, function_count = 1,
       class_count = 0, complexity = 2, maintainability_index = 143.71 \<rparr>"
  "calculate_metrics empty_file =
     \<lparr> lines_of_code = 0, comment_lines = 0, blank_lines = 0, function_count = 0,
       class_count = 0, complexity = 0, maintainability_index = 171 \<rparr>"
  "calculate_metrics broken_file = zero_metrics"
  by (simp_all add: calculate_metrics_def small_file_def empty_file_def broken_file_def
      Let_def walk_def calculate_complexity_def strip_def rstrip_def isspace_def
      startswith_hash_def)

theorem project_metrics_aggregate_witness:
  "distinct (map path [small_file, empty_file, broken_file])
   \<and> metrics (fst (run_analysis ''proj'' get_default_config (\<lambda>f. []) []
        [small_file, empty_file, broken_file])) =
        \<lparr> lines_of_code = 3, comment_lines = 1, blank_lines = 1, function_count = 1,
          class_count = 0, complexity = 2, maintainability_index = 31471 / 300 \<rparr>"
proof -
  have d: "distinct (map path [small_file, empty_file, broken_file])"
    by (simp add: small_file_def empty_file_def broken_file_def)
  from project_metrics_aggregate
    [of "[small_file, empty_file, broken_file]" "''proj''" get_default_config "\<lambda>f. []"] d
  have "metrics (fst (run_analysis ''proj'' get_default_config (\<lambda>f. []) []
        [small_file, empty_file, broken_file])) =
        \<lparr> lines_of_code = (\<Sum>f \<leftarrow> [small_file, empty_file, broken_file].
                             lines_of_code (calculate_metrics f)),
          comment_lines = (\<Sum>f \<leftarrow> [small_file, empty_file, broken_file].
                             comment_lines (calculate_metrics f)),
          blank_lines = (\<Sum>f \<leftarrow> [small_file, empty_file, broken_file].
                           blank_lines (calculate_metrics f)),
          function_count = (\<Sum>f \<leftarrow> [small_file, empty_file, broken_file].
                              function_count (calculate_metrics f)),
          class_count = (\<Sum>f \<leftarrow> [small_file, empty_file, broken_file].
                           class_count (calculate_metrics f)),
          complexity = (\<Sum>f \<leftarrow> [small_file, empty_file, broken_file].
                          complexity (calculate_metrics f)),
          maintainability_index =
            (if [small_file, empty_file, broken_file] = [] then 0
             else (\<Sum>f \<leftarrow> [small_file, empty_file, broken_file].
                     maintainability_index (calculate_metrics f))
                  / real (length [small_file, empty_file, broken_file])) \<rparr>"
    by blast
  then show ?thesis
    using d by (simp add: example_metrics zero_metrics_def)
qed

section \<open>Asynchronous function definitions\<close>



























end
